theory Spec2Isabelle
  imports Complex_Main "HOL-Library.Log_Nat"
begin

section \<open>Values shared by the whole program\<close>

text \<open>
  Go functions of the form \<^verbatim>\<open>func f(...) (T, error)\<close> return both components; the
  caller may read the value and discard the error (as \<^verbatim>\<open>parseFields\<close> does with the
  size). They are modelled as pairs \<open>T \<times> error option\<close>, where \<open>None\<close> is \<^verbatim>\<open>nil\<close>.
\<close>

datatype error =
    ErrorNew string  \<comment> \<open>\<^verbatim>\<open>errors.New(msg)\<close>\<close>
  | ErrSyntax        \<comment> \<open>\<^verbatim>\<open>strconv.ErrSyntax\<close> wrapped in a \<^verbatim>\<open>NumError\<close>\<close>
  | ErrRange         \<comment> \<open>\<^verbatim>\<open>strconv.ErrRange\<close> wrapped in a \<^verbatim>\<open>NumError\<close>\<close>
  | ErrTransport string  \<comment> \<open>an error of \<^verbatim>\<open>http.Get\<close> or of reading the body\<close>

text \<open>
  A call either returns, or panics (a run-time error such as a slice bound out of
  range), or ends the process (\<^verbatim>\<open>log.Fatal\<close> calls \<^verbatim>\<open>os.Exit(1)\<close>).
\<close>

datatype panic = SliceBoundsOutOfRange | NilPointerDereference

datatype 'a outcome = Return 'a | Panic panic | Exit nat

text \<open>
  A float64 value: a finite number (an exact rational; the sign of zero is not kept,
  since no operation of the program distinguishes the two zeros), an infinity or NaN.
\<close>

datatype fval = Fin rat | PInf | NInf | NaN

text \<open>
  What the language leaves to the implementation: the width of \<^verbatim>\<open>int\<close>
  (\<^verbatim>\<open>strconv.IntSize\<close>, 32 or 64) and the result of converting to \<^verbatim>\<open>int64\<close> a float
  that \<^verbatim>\<open>int64\<close> cannot represent (the conversion succeeds and the value is
  implementation-dependent).
\<close>

record platform =
  IntSize :: nat
  ConvOutOfRange :: "fval \<Rightarrow> int"

definition amd64 :: platform where
  "amd64 = \<lparr>IntSize = 64, ConvOutOfRange = (\<lambda>_. - (2 ^ 63))\<rparr>"

section \<open>Bytes of a string\<close>

definition byte :: "char \<Rightarrow> nat" where
  "byte c = of_char c"

definition is_digit :: "char \<Rightarrow> bool" where
  "is_digit c = (48 \<le> byte c \<and> byte c \<le> 57)"

definition digit_val :: "char \<Rightarrow> int" where
  "digit_val c = int (byte c) - 48"

text \<open>\<^verbatim>\<open>lower(c) = c | ('x' ^ 'X')\<close> of strconv, used only in comparisons with a letter.\<close>

definition lower :: "char \<Rightarrow> nat" where
  "lower c = (if (byte c div 32) mod 2 = 1 then byte c else byte c + 32)"

definition is_hex_letter :: "char \<Rightarrow> bool" where
  "is_hex_letter c = (97 \<le> lower c \<and> lower c \<le> 102)"

definition hex_letter_val :: "char \<Rightarrow> int" where
  "hex_letter_val c = int (lower c) - 97 + 10"

text \<open>The ASCII lower-casing of \<^verbatim>\<open>commonPrefixLenIgnoreCase\<close>: only \<^verbatim>\<open>'A'..'Z'\<close> change.\<close>

definition to_lower_ascii :: "char \<Rightarrow> char" where
  "to_lower_ascii c = (if 65 \<le> byte c \<and> byte c \<le> 90 then char_of (byte c + 32) else c)"

text \<open>An optional leading sign: whether it is a minus, and the rest.\<close>

definition split_sign :: "string \<Rightarrow> bool \<times> string" where
  "split_sign s =
     (case s of
        [] \<Rightarrow> (False, [])
      | c # cs \<Rightarrow>
          if c = CHR ''+'' then (False, cs)
          else if c = CHR ''-'' then (True, cs)
          else (False, s))"

section \<open>Binary floating point\<close>

text \<open>
  A binary format with \<open>prec\<close> significand bits and normal exponents \<open>emin..emax\<close>:
  float32 is (24, -126, 127), float64 is (53, -1022, 1023). Rounding is to nearest,
  ties to even (IEEE 754 default, the rounding of \<^verbatim>\<open>strconv.ParseFloat\<close> and of
  float64 arithmetic), with gradual underflow.
\<close>

record format =
  prec :: nat
  emin :: int
  emax :: int

definition float32 :: format where
  "float32 = \<lparr>prec = 24, emin = - 126, emax = 127\<rparr>"

definition float64 :: format where
  "float64 = \<lparr>prec = 53, emin = - 1022, emax = 1023\<rparr>"

definition pow2 :: "int \<Rightarrow> rat" where
  "pow2 e = (if 0 \<le> e then 2 ^ nat e else 1 / 2 ^ nat (- e))"

text \<open>\<open>ilog2 q\<close> is the exponent \<open>e\<close> with \<open>2^e \<le> q < 2^(e+1)\<close>, for \<open>q > 0\<close>.\<close>

definition ilog2 :: "rat \<Rightarrow> int" where
  "ilog2 q = (if 1 \<le> q then bitlen \<lfloor>q\<rfloor> - 1 else - bitlen (\<lceil>1 / q\<rceil> - 1))"

definition round_half_even :: "rat \<Rightarrow> int" where
  "round_half_even q =
     (let f = \<lfloor>q\<rfloor>; r = q - of_int f
      in if r < 1 / 2 then f
         else if 1 / 2 < r then f + 1
         else if even f then f else f + 1)"

text \<open>The spacing of the format's numbers around a non-zero \<open>q\<close>.\<close>

definition ulp :: "format \<Rightarrow> rat \<Rightarrow> rat" where
  "ulp fmt q = pow2 (max (ilog2 \<bar>q\<bar>) (emin fmt) - int (prec fmt) + 1)"

definition fround :: "format \<Rightarrow> rat \<Rightarrow> rat" where
  "fround fmt q =
     (if q = 0 then 0
      else sgn q * of_int (round_half_even (\<bar>q\<bar> / ulp fmt q)) * ulp fmt q)"

definition overflows :: "format \<Rightarrow> rat \<Rightarrow> bool" where
  "overflows fmt x = (pow2 (emax fmt + 1) \<le> \<bar>x\<bar>)"

text \<open>A rational that the format holds exactly.\<close>

definition representable :: "format \<Rightarrow> rat \<Rightarrow> bool" where
  "representable fmt x = (fround fmt x = x \<and> \<not> overflows fmt x)"

definition to_format :: "format \<Rightarrow> rat \<Rightarrow> fval" where
  "to_format fmt q =
     (let x = fround fmt q
      in if overflows fmt x then (if q < 0 then NInf else PInf) else Fin x)"

text \<open>
  float64 multiplication, \<^verbatim>\<open>x * y\<close>: the exact product rounded to float64; an
  infinity times zero and anything times NaN is NaN.
\<close>

definition fneg :: "fval \<Rightarrow> fval" where
  "fneg x = (case x of Fin q \<Rightarrow> Fin (- q) | PInf \<Rightarrow> NInf | NInf \<Rightarrow> PInf | NaN \<Rightarrow> NaN)"

definition inf_times :: "fval \<Rightarrow> rat \<Rightarrow> fval" where
  "inf_times i q = (if q = 0 then NaN else if 0 < q then i else fneg i)"

fun fmul64 :: "fval \<Rightarrow> fval \<Rightarrow> fval" where
  "fmul64 (Fin a) (Fin b) = to_format float64 (a * b)"
| "fmul64 NaN _ = NaN"
| "fmul64 _ NaN = NaN"
| "fmul64 (Fin a) PInf = inf_times PInf a"
| "fmul64 (Fin a) NInf = inf_times NInf a"
| "fmul64 PInf (Fin b) = inf_times PInf b"
| "fmul64 NInf (Fin b) = inf_times NInf b"
| "fmul64 PInf PInf = PInf"
| "fmul64 NInf NInf = PInf"
| "fmul64 PInf NInf = NInf"
| "fmul64 NInf PInf = NInf"

text \<open>
  The conversion \<^verbatim>\<open>int64(x)\<close> of a float64: the fraction is discarded (truncation
  towards zero); when the result does not fit, the value is the platform's, taken
  in the range of \<^verbatim>\<open>int64\<close>.
\<close>

definition trunc :: "rat \<Rightarrow> int" where
  "trunc q = (if 0 \<le> q then \<lfloor>q\<rfloor> else \<lceil>q\<rceil>)"

definition wrap64 :: "int \<Rightarrow> int" where
  "wrap64 n = (n + 2 ^ 63) mod 2 ^ 64 - 2 ^ 63"

definition int64_of_float64 :: "platform \<Rightarrow> fval \<Rightarrow> int" where
  "int64_of_float64 pl x =
     (case x of
        Fin q \<Rightarrow>
          if - (2 ^ 63) \<le> trunc q \<and> trunc q < 2 ^ 63 then trunc q
          else wrap64 (ConvOutOfRange pl x)
      | _ \<Rightarrow> wrap64 (ConvOutOfRange pl x))"

section \<open>The library functions \<^verbatim>\<open>strconv.ParseFloat\<close> and \<^verbatim>\<open>strconv.Atoi\<close>\<close>

text \<open>
  Both functions belong to Go's standard library, not to the repository; they are
  modelled from their documented behaviour, over the bytes of the string.

  \<^verbatim>\<open>ParseFloat(s, bitSize)\<close> accepts the whole of \<open>s\<close> or fails with \<^verbatim>\<open>ErrSyntax\<close>.
  It accepts \<^verbatim>\<open>inf\<close>, \<^verbatim>\<open>infinity\<close> (optionally signed) and \<^verbatim>\<open>nan\<close> in any letter case, and
  the decimal and hexadecimal floating-point literals of Go with an optional sign:
  digits with at most one point, an optional exponent (\<^verbatim>\<open>e\<close>, decimal; \<^verbatim>\<open>p\<close>, binary
  and mandatory after a \<^verbatim>\<open>0x\<close> mantissa), and underscores that separate digits. The
  value is the nearest number of the format, ties to even; a value beyond the
  format's range is returned as an infinity with \<^verbatim>\<open>ErrRange\<close>.
\<close>

definition special :: "string \<Rightarrow> fval option" where
  "special s =
     (let (neg, r) = split_sign s; l = map to_lower_ascii r
      in if l = ''inf'' \<or> l = ''infinity'' then Some (if neg then NInf else PInf)
         else if map to_lower_ascii s = ''nan'' then Some NaN
         else None)"

text \<open>
  The mantissa loop of \<^verbatim>\<open>readFloat\<close>: the digits read so far as one number in the
  base, the number of digits after the point, and whether a point and a digit were
  seen. It stops at a second point or at the first byte that cannot continue the
  mantissa, and returns what is left.
\<close>

record mantissa =
  digits :: int
  fracDigits :: int
  sawdot :: bool
  sawdigits :: bool

definition push_digit :: "int \<Rightarrow> int \<Rightarrow> mantissa \<Rightarrow> mantissa" where
  "push_digit base d m =
     m\<lparr>digits := digits m * base + d,
       fracDigits := (if sawdot m then fracDigits m + 1 else fracDigits m),
       sawdigits := True\<rparr>"

fun readMantissa :: "bool \<Rightarrow> string \<Rightarrow> mantissa \<Rightarrow> mantissa \<times> string" where
  "readMantissa hex [] m = (m, [])"
| "readMantissa hex (c # cs) m =
     (if c = CHR ''_'' then readMantissa hex cs m
      else if c = CHR ''.'' then
        (if sawdot m then (m, c # cs) else readMantissa hex cs (m\<lparr>sawdot := True\<rparr>))
      else if is_digit c then
        readMantissa hex cs (push_digit (if hex then 16 else 10) (digit_val c) m)
      else if hex \<and> is_hex_letter c then
        readMantissa hex cs (push_digit 16 (hex_letter_val c) m)
      else (m, c # cs))"

text \<open>
  The exponent loop: decimal digits and underscores; the exponent stops growing once
  it has reached 10000.
\<close>

fun readExponent :: "string \<Rightarrow> int \<Rightarrow> int \<times> string" where
  "readExponent [] e = (e, [])"
| "readExponent (c # cs) e =
     (if c = CHR ''_'' then readExponent cs e
      else if is_digit c then
        readExponent cs (if e < 10000 then e * 10 + digit_val c else e)
      else (e, c # cs))"

text \<open>
  \<^verbatim>\<open>underscoreOK\<close>: an underscore must follow a digit (or the base prefix) and be
  followed by a digit. The state is the kind of the last byte seen.
\<close>

datatype saw = SawStart | SawDigit | SawUnderscore | SawOther

fun underscoreScan :: "bool \<Rightarrow> string \<Rightarrow> saw \<Rightarrow> bool" where
  "underscoreScan hex [] sw = (sw \<noteq> SawUnderscore)"
| "underscoreScan hex (c # cs) sw =
     (if is_digit c \<or> (hex \<and> is_hex_letter c) then underscoreScan hex cs SawDigit
      else if c = CHR ''_'' then
        (if sw \<noteq> SawDigit then False else underscoreScan hex cs SawUnderscore)
      else if sw = SawUnderscore then False
      else underscoreScan hex cs SawOther)"

definition has_base_prefix :: "string \<Rightarrow> bool" where
  "has_base_prefix r =
     (case r of
        c0 # c1 # _ \<Rightarrow> c0 = CHR ''0'' \<and> (lower c1 = 98 \<or> lower c1 = 111 \<or> lower c1 = 120)
      | _ \<Rightarrow> False)"

definition underscoreOK :: "string \<Rightarrow> bool" where
  "underscoreOK s =
     (let r = snd (split_sign s)
      in if has_base_prefix r then underscoreScan (lower (r ! 1) = 120) (drop 2 r) SawDigit
         else underscoreScan False r SawStart)"

text \<open>
  \<^verbatim>\<open>readFloat\<close> on a string that must be consumed to its end: the exact value of the
  literal, or \<open>None\<close> for a syntax error.
\<close>

definition pow_int :: "int \<Rightarrow> int \<Rightarrow> rat" where
  "pow_int b e = (if 0 \<le> e then of_int b ^ nat e else 1 / of_int b ^ nat (- e))"

definition readFloat :: "string \<Rightarrow> rat option" where
  "readFloat s =
     (if s = [] then None
      else
        let (neg, r) = split_sign s;
            hex = (2 < length r \<and> r ! 0 = CHR ''0'' \<and> lower (r ! 1) = 120);
            (m, rest) = readMantissa hex (if hex then drop 2 r else r)
                          \<lparr>digits = 0, fracDigits = 0, sawdot = False, sawdigits = False\<rparr>;
            expChar = (if hex then 112 else 101)
        in if \<not> sawdigits m then None
           else
             let ex = (if rest \<noteq> [] \<and> lower (hd rest) = expChar then
                         (let (eneg, r2) = split_sign (tl rest)
                          in if r2 = [] then None
                             else if is_digit (hd r2) then
                               (let (e, r3) = readExponent r2 0
                                in Some ((if eneg then - e else e), r3))
                             else None)
                       else if hex then None
                       else Some (0, rest))
             in case ex of
                  None \<Rightarrow> None
                | Some (e, r3) \<Rightarrow>
                    if r3 \<noteq> [] then None
                    else if CHR ''_'' \<in> set s \<and> \<not> underscoreOK s then None
                    else Some ((if neg then - 1 else 1) * of_int (digits m)
                               * pow_int (if hex then 16 else 10) (- fracDigits m)
                               * pow_int (if hex then 2 else 10) e))"

definition format_of_bitSize :: "nat \<Rightarrow> format" where
  "format_of_bitSize bitSize = (if bitSize = 32 then float32 else float64)"

definition ParseFloat :: "string \<Rightarrow> nat \<Rightarrow> fval \<times> error option" where
  "ParseFloat s bitSize =
     (case special s of
        Some v \<Rightarrow> (v, None)
      | None \<Rightarrow>
          (case readFloat s of
             None \<Rightarrow> (Fin 0, Some ErrSyntax)
           | Some q \<Rightarrow>
               (case to_format (format_of_bitSize bitSize) q of
                  Fin x \<Rightarrow> (Fin x, None)
                | v \<Rightarrow> (v, Some ErrRange))))"

text \<open>
  \<^verbatim>\<open>Atoi(s)\<close>: an optional sign and at least one decimal digit, nothing else (no
  underscores in base 10); a value outside \<^verbatim>\<open>int\<close> is returned clamped, with
  \<^verbatim>\<open>ErrRange\<close>.
\<close>

definition decimal_value :: "string \<Rightarrow> int" where
  "decimal_value ds = foldl (\<lambda>n c. n * 10 + digit_val c) 0 ds"

definition Atoi :: "platform \<Rightarrow> string \<Rightarrow> int \<times> error option" where
  "Atoi pl s =
     (let (neg, ds) = split_sign s; n = decimal_value ds; cutoff = 2 ^ (IntSize pl - 1)
      in if ds = [] then (0, Some ErrSyntax)
         else if list_all is_digit ds then
           (if \<not> neg \<and> cutoff \<le> n then (cutoff - 1, Some ErrRange)
            else if neg \<and> cutoff < n then (- cutoff, Some ErrRange)
            else ((if neg then - n else n), None))
         else (0, Some ErrSyntax))"

section \<open>The search provider of \<^verbatim>\<open>search.go\<close>\<close>

record XdccFileInfo =
  Network :: string
  Channel :: string
  BotName :: string
  Name :: string
  Gets :: int
  Url :: string
  Command :: string
  Size :: int
  Slot :: string

text \<open>The zero value \<^verbatim>\<open>XdccFileInfo{}\<close>.\<close>

definition zeroFileInfo :: XdccFileInfo where
  "zeroFileInfo =
     \<lparr>Network = [], Channel = [], BotName = [], Name = [], Gets = 0, Url = [],
      Command = [], Size = 0, Slot = []\<rparr>"

text \<open>
  Modelled from the spec: the constants \<^verbatim>\<open>KiloByte\<close>, \<^verbatim>\<open>MegaByte\<close> and \<^verbatim>\<open>GigaByte\<close> are
  declared outside \<^verbatim>\<open>search.go\<close>; the specification gives the multipliers as 1024,
  1024 squared and 1024 cubed.
\<close>

definition KiloByte :: rat where
  "KiloByte = 1024"

definition MegaByte :: rat where
  "MegaByte = 1024 * 1024"

definition GigaByte :: rat where
  "GigaByte = 1024 * 1024 * 1024"

text \<open>
  \<^verbatim>\<open>parseFileSize\<close>. After the test for the empty string, \<^verbatim>\<open>sizeStr[len(sizeStr)-1]\<close> is
  the last byte and \<^verbatim>\<open>sizeStr[:len(sizeStr)-1]\<close> is the string without it.
\<close>

definition parseFileSize :: "platform \<Rightarrow> string \<Rightarrow> int \<times> error option" where
  "parseFileSize pl sizeStr =
     (if length sizeStr = 0 then (- 1, Some (ErrorNew ''empty string''))
      else
        let lastChar = last sizeStr;
            sizePart = butlast sizeStr;
            (size, err) = ParseFloat sizePart 32
        in if err \<noteq> None then (- 1, err)
           else if lastChar = CHR ''G'' then
             (int64_of_float64 pl (fmul64 size (Fin GigaByte)), None)
           else if lastChar = CHR ''M'' then
             (int64_of_float64 pl (fmul64 size (Fin MegaByte)), None)
           else if lastChar = CHR ''K'' then
             (int64_of_float64 pl (fmul64 size (Fin KiloByte)), None)
           else (- 1, Some (ErrorNew (''unable to parse: '' @ sizeStr))))"

definition xdccEuNumberOfEntries :: nat where
  "xdccEuNumberOfEntries = 7"

text \<open>
  The slice expression \<^verbatim>\<open>s[:n]\<close> of a string: a run-time panic unless
  \<open>0 \<le> n \<le> len(s)\<close>.
\<close>

definition slice_to :: "string \<Rightarrow> int \<Rightarrow> string outcome" where
  "slice_to s n =
     (if 0 \<le> n \<and> n \<le> int (length s) then Return (take (nat n) s)
      else Panic SliceBoundsOutOfRange)"

text \<open>
  \<^verbatim>\<open>parseFields\<close>. The first four assignments cannot fail; the slice of \<^verbatim>\<open>fields[4]\<close> is
  evaluated next and may panic; \<^verbatim>\<open>Gets\<close> is assigned only when \<^verbatim>\<open>Atoi\<close> returns no
  error; the error of \<^verbatim>\<open>parseFileSize\<close> is discarded and its value kept.
\<close>

definition parseFields ::
  "platform \<Rightarrow> string list \<Rightarrow> (XdccFileInfo option \<times> error option) outcome" where
  "parseFields pl flds =
     (if length flds \<noteq> xdccEuNumberOfEntries then
        Return (None, Some (ErrorNew ''unespected number of search entry fields''))
      else
        let fInfo = zeroFileInfo\<lparr>Network := flds ! 0, Channel := flds ! 1,
                                 BotName := flds ! 2, Slot := flds ! 3\<rparr>
        in case slice_to (flds ! 4) (int (length (flds ! 4)) - 1) of
             Panic p \<Rightarrow> Panic p
           | Exit n \<Rightarrow> Exit n
           | Return getsPart \<Rightarrow>
               let (gets, err) = Atoi pl getsPart;
                   fInfo = (if err = None then fInfo\<lparr>Gets := gets\<rparr> else fInfo);
                   (size, _) = parseFileSize pl (flds ! 5)
               in Return (Some (fInfo\<lparr>Size := size, Name := flds ! 6\<rparr>), None))"

text \<open>\<^verbatim>\<open>strings.Replace(s, old, new, 1)\<close>: the first occurrence of \<open>old\<close> is replaced.\<close>

fun replace_first :: "string \<Rightarrow> string \<Rightarrow> string \<Rightarrow> string" where
  "replace_first old new [] = (if old = [] then new else [])"
| "replace_first old new (c # cs) =
     (if take (length old) (c # cs) = old then new @ drop (length old) (c # cs)
      else c # replace_first old new cs)"

text \<open>
  What the provider receives from outside. The request is determined by the
  keywords; the reply is either the error of \<^verbatim>\<open>http.Get\<close>, or a status code with a
  body. \<^verbatim>\<open>goquery.NewDocumentFromReader\<close> either fails on the body or gives a document,
  of which the code reads the \<^verbatim>\<open>tr\<close> elements in document order and, for each, its
  child elements. A child element is given by its text after \<^verbatim>\<open>strings.TrimSpace\<close> and
  by the \<^verbatim>\<open>href\<close> attribute of its first \<^verbatim>\<open>a\<close> descendant, if there is one.
\<close>

record cell =
  cellText :: string
  anchorHref :: "string option"

type_synonym row = "cell list"

datatype body = Malformed error | Document "row list"

datatype http_reply = GetError error | Response nat body

text \<open>The variable \<^verbatim>\<open>url\<close> after the inner \<^verbatim>\<open>Each\<close>: set by the child of index 1 only.\<close>

definition rowUrl :: "row \<Rightarrow> string" where
  "rowUrl r =
     (if 1 < length r then (case anchorHref (r ! 1) of Some v \<Rightarrow> v | None \<Rightarrow> []) else [])"

definition rowFields :: "row \<Rightarrow> string list" where
  "rowFields r = map cellText r"

text \<open>The body of the outer \<^verbatim>\<open>Each\<close> for a row other than the first.\<close>

definition handleRow ::
  "platform \<Rightarrow> row \<Rightarrow> XdccFileInfo list \<Rightarrow> XdccFileInfo list outcome" where
  "handleRow pl r fileInfos =
     (case parseFields pl (rowFields r) of
        Panic p \<Rightarrow> Panic p
      | Exit n \<Rightarrow> Exit n
      | Return (info, err) \<Rightarrow>
          (case err of
             Some _ \<Rightarrow> Return fileInfos
           | None \<Rightarrow>
               (case info of
                  None \<Rightarrow> Panic NilPointerDereference
                | Some i \<Rightarrow>
                    Return (fileInfos @
                      [i\<lparr>Url := replace_first ''irc://'' ''http://'' (rowUrl r),
                         Command := ''/msg '' @ BotName i @ '' xdcc send '' @ Slot i\<rparr>]))))"

fun eachRow :: "platform \<Rightarrow> row list \<Rightarrow> XdccFileInfo list \<Rightarrow> XdccFileInfo list outcome" where
  "eachRow pl [] fileInfos = Return fileInfos"
| "eachRow pl (r # rs) fileInfos =
     (case handleRow pl r fileInfos of
        Return fileInfos' \<Rightarrow> eachRow pl rs fileInfos'
      | Panic p \<Rightarrow> Panic p
      | Exit n \<Rightarrow> Exit n)"

text \<open>
  \<^verbatim>\<open>XdccEuProvider.Search\<close>. \<^verbatim>\<open>log.Fatal\<close> and \<^verbatim>\<open>log.Fatalf\<close> print and call \<^verbatim>\<open>os.Exit(1)\<close>,
  so the \<^verbatim>\<open>return nil, err\<close> that follows each of them is never reached. The row of
  index 0 is skipped.
\<close>

definition XdccEuSearch ::
  "platform \<Rightarrow> (string list \<Rightarrow> http_reply) \<Rightarrow> string list
     \<Rightarrow> (XdccFileInfo list \<times> error option) outcome" where
  "XdccEuSearch pl net keywords =
     (case net keywords of
        GetError err \<Rightarrow> Exit 1
      | Response statusCode b \<Rightarrow>
          if statusCode \<noteq> 200 then Exit 1
          else
            (case b of
               Malformed err \<Rightarrow> Exit 1
             | Document rows \<Rightarrow>
                 (case eachRow pl (drop 1 rows) [] of
                    Return fileInfos \<Rightarrow> Return (fileInfos, None)
                  | Panic p \<Rightarrow> Panic p
                  | Exit n \<Rightarrow> Exit n)))"

section \<open>The provider registry\<close>

text \<open>
  A provider is any implementation of \<^verbatim>\<open>XdccSearchProvider\<close>: what its \<^verbatim>\<open>Search\<close> does on
  the keywords.
\<close>

type_synonym provider = "string list \<Rightarrow> (XdccFileInfo list \<times> error option) outcome"

definition MaxProviders :: nat where
  "MaxProviders = 100"

definition NewProviderRegistry :: "provider list" where
  "NewProviderRegistry = []"

definition AddProvider :: "provider list \<Rightarrow> provider \<Rightarrow> provider list" where
  "AddProvider providerList p = providerList @ [p]"

text \<open>
  \<^verbatim>\<open>XdccProviderRegistry.Search\<close> starts one goroutine per provider and blocks in
  \<^verbatim>\<open>wg.Wait()\<close> until the counter of the wait group is zero. A goroutine is at one of
  four points of its body: before the call of \<^verbatim>\<open>p.Search\<close>; after it, holding \<^verbatim>\<open>res\<close>
  and \<^verbatim>\<open>err\<close>; after the \<^verbatim>\<open>append\<close>, before \<^verbatim>\<open>wg.Done()\<close>; returned. The scheduler picks
  which goroutine makes its next step. The \<^verbatim>\<open>append\<close> to the shared slice is taken as
  one indivisible step, which is the most favourable reading of the unsynchronised
  code. A provider that panics or exits ends the process.
\<close>

datatype goroutine =
    Spawned
  | Searched "XdccFileInfo list" "error option"
  | Merged
  | Finished

record search_state =
  wg :: int
  allResults :: "XdccFileInfo list"
  goroutines :: "goroutine list"
  dead :: bool

definition init_state :: "provider list \<Rightarrow> search_state" where
  "init_state providerList =
     \<lparr>wg = int (length providerList), allResults = [],
      goroutines = map (\<lambda>_. Spawned) providerList, dead = False\<rparr>"

definition step :: "provider list \<Rightarrow> string list \<Rightarrow> nat \<Rightarrow> search_state \<Rightarrow> search_state" where
  "step providerList keywords i st =
     (if dead st \<or> length (goroutines st) \<le> i then st
      else
        case goroutines st ! i of
          Spawned \<Rightarrow>
            (case (providerList ! i) keywords of
               Return (res, err) \<Rightarrow>
                 st\<lparr>goroutines := (goroutines st)[i := Searched res err]\<rparr>
             | Panic p \<Rightarrow> st\<lparr>dead := True\<rparr>
             | Exit n \<Rightarrow> st\<lparr>dead := True\<rparr>)
        | Searched res err \<Rightarrow>
            (if err \<noteq> None then st\<lparr>goroutines := (goroutines st)[i := Finished]\<rparr>
             else st\<lparr>allResults := allResults st @ res,
                     goroutines := (goroutines st)[i := Merged]\<rparr>)
        | Merged \<Rightarrow>
            st\<lparr>wg := wg st - 1, goroutines := (goroutines st)[i := Finished]\<rparr>
        | Finished \<Rightarrow> st)"

text \<open>The state after the goroutines named by a schedule have stepped, in that order.\<close>

definition run :: "provider list \<Rightarrow> string list \<Rightarrow> nat list \<Rightarrow> search_state" where
  "run providerList keywords sched =
     foldl (\<lambda>st i. step providerList keywords i st) (init_state providerList) sched"

text \<open>
  What the caller of \<^verbatim>\<open>Search\<close> has after a schedule: \<open>None\<close> while \<^verbatim>\<open>wg.Wait()\<close> still
  blocks (or the process has ended), and the pair returned otherwise.
\<close>

definition registrySearch ::
  "provider list \<Rightarrow> string list \<Rightarrow> nat list \<Rightarrow> (XdccFileInfo list \<times> error option) option" where
  "registrySearch providerList keywords sched =
     (let st = run providerList keywords sched
      in if \<not> dead st \<and> wg st = 0 then Some (allResults st, None) else None)"

text \<open>
  For the proofs about the wait group: what a goroutine may still subtract from the
  counter (1 until it has returned, with or without \<^verbatim>\<open>wg.Done()\<close>, except once it holds
  an error), and the invariant of a search in which the provider of index \<open>k\<close>
  returns an error.
\<close>

fun owes :: "goroutine \<Rightarrow> int" where
  "owes Spawned = 1"
| "owes (Searched res err) = (if err = None then 1 else 0)"
| "owes Merged = 1"
| "owes Finished = 0"

definition pending :: "goroutine list \<Rightarrow> int" where
  "pending gs = sum_list (map owes gs)"

definition stuck :: "nat \<Rightarrow> search_state \<Rightarrow> bool" where
  "stuck k st =
     (k < length (goroutines st) \<and>
      (case goroutines st ! k of
         Spawned \<Rightarrow> pending (goroutines st) \<le> wg st
       | Searched res err \<Rightarrow> err \<noteq> None \<and> pending (goroutines st) + 1 \<le> wg st
       | Merged \<Rightarrow> False
       | Finished \<Rightarrow> pending (goroutines st) + 1 \<le> wg st))"

text \<open>
  The switch of \<^verbatim>\<open>parseFileSize\<close> read as a table: the multiplier of a unit byte, and
  \<open>None\<close> for any other byte.
\<close>

definition unit_multiplier :: "char \<Rightarrow> rat option" where
  "unit_multiplier c =
     (if c = CHR ''G'' then Some GigaByte
      else if c = CHR ''M'' then Some MegaByte
      else if c = CHR ''K'' then Some KiloByte
      else None)"

section \<open>Size decoding\<close>

text \<open>
  C2: \<^verbatim>\<open>parseFileSize\<close> gives 2.5 * 1024^3 = 2684354560 for \<^verbatim>\<open>"2.5G"\<close>, 750 * 1024^2 =
  786432000 for \<^verbatim>\<open>"750M"\<close>, 512 * 1024 = 524288 for \<^verbatim>\<open>"512K"\<close>, each without error,
  and an error for the empty string, for \<^verbatim>\<open>"10X"\<close> (no such unit) and for \<^verbatim>\<open>"abcG"\<close>
  (the prefix is not a number), on every platform.
\<close>

theorem parseFileSize_examples:
  "parseFileSize pl ''2.5G'' = (2684354560, None) \<and>
   parseFileSize pl ''750M'' = (786432000, None) \<and>
   parseFileSize pl ''512K'' = (524288, None) \<and>
   snd (parseFileSize pl []) = Some (ErrorNew ''empty string'') \<and>
   snd (parseFileSize pl ''10X'') = Some (ErrorNew ''unable to parse: 10X'') \<and>
   snd (parseFileSize pl ''abcG'') = Some ErrSyntax"
proof -
  have g: "parseFileSize pl ''2.5G'' = (2684354560, None)"
    by code_simp
  have m: "parseFileSize pl ''750M'' = (786432000, None)"
    by code_simp
  have k: "parseFileSize pl ''512K'' = (524288, None)"
    by code_simp
  have e: "snd (parseFileSize pl []) = Some (ErrorNew ''empty string'')"
    by code_simp
  have x: "snd (parseFileSize pl ''10X'') = Some (ErrorNew ''unable to parse: 10X'')"
    by code_simp
  have a: "snd (parseFileSize pl ''abcG'') = Some ErrSyntax"
    by code_simp
  from g m k e x a show ?thesis
    by (intro conjI)
qed

section \<open>Parsing the cells of a row\<close>

lemma slice_to_butlast:
  "s \<noteq> [] \<Longrightarrow> slice_to s (int (length s) - 1) = Return (butlast s)"
proof -
  assume "s \<noteq> []"
  then have "0 < length s" by simp
  then have "nat (int (length s) - 1) = length s - 1" by linarith
  with \<open>0 < length s\<close> show ?thesis
    by (simp add: slice_to_def butlast_conv_take)
qed

lemma parseFields_wrong_count:
  "length flds \<noteq> 7 \<Longrightarrow>
   parseFields pl flds =
     Return (None, Some (ErrorNew ''unespected number of search entry fields''))"
  by (simp add: parseFields_def xdccEuNumberOfEntries_def)

lemma parseFields_empty_gets:
  "length flds = 7 \<Longrightarrow> flds ! 4 = [] \<Longrightarrow> parseFields pl flds = Panic SliceBoundsOutOfRange"
  by (simp add: parseFields_def xdccEuNumberOfEntries_def slice_to_def)

lemma parseFields_ok:
  assumes "length flds = 7" and "flds ! 4 \<noteq> []"
  shows "parseFields pl flds =
    Return (Some \<lparr>Network = flds ! 0, Channel = flds ! 1, BotName = flds ! 2, Name = flds ! 6,
       Gets = (case Atoi pl (butlast (flds ! 4)) of (n, None) \<Rightarrow> n | (n, Some e) \<Rightarrow> 0),
       Url = [], Command = [], Size = fst (parseFileSize pl (flds ! 5)), Slot = flds ! 3\<rparr>, None)"
  using assms(1) slice_to_butlast [OF assms(2)]
  by (simp add: parseFields_def xdccEuNumberOfEntries_def zeroFileInfo_def Let_def
        split: prod.splits option.splits)

lemma parseFields_success:
  assumes "parseFields pl flds = Return (Some info, None)"
  shows "length flds = 7" and "flds ! 4 \<noteq> []"
proof -
  show len: "length flds = 7"
  proof (rule ccontr)
    assume "length flds \<noteq> 7"
    from parseFields_wrong_count [OF this, of pl] assms show False by simp
  qed
  show "flds ! 4 \<noteq> []"
  proof
    assume "flds ! 4 = []"
    from parseFields_empty_gets [OF len this, of pl] assms show False by simp
  qed
qed

text \<open>
  C9: for a list of seven fields whose fifth element \<^verbatim>\<open>fields[4]\<close> is the empty string,
  \<^verbatim>\<open>parseFields\<close> neither returns a record nor an error: the slice
  \<^verbatim>\<open>fields[4][:len(fields[4])-1]\<close> has the bound -1 and panics.
\<close>

theorem parseFields_panics_on_empty_gets:
  "length flds = 7 \<Longrightarrow> flds ! 4 = [] \<Longrightarrow> parseFields pl flds = Panic SliceBoundsOutOfRange"
  by (rule parseFields_empty_gets)

theorem parseFields_panics_on_empty_gets_witness:
  "length [''net'', ''#chan'', ''bot'', ''#5'', [], ''2.5G'', ''file.iso''] = 7 \<and>
   [''net'', ''#chan'', ''bot'', ''#5'', [], ''2.5G'', ''file.iso''] ! 4 = [] \<and>
   parseFields amd64 [''net'', ''#chan'', ''bot'', ''#5'', [], ''2.5G'', ''file.iso'']
     = Panic SliceBoundsOutOfRange"
  using parseFields_panics_on_empty_gets
    [of "[''net'', ''#chan'', ''bot'', ''#5'', [], ''2.5G'', ''file.iso'']" amd64]
  by simp

text \<open>
  C4, as stated, fails: nothing in \<^verbatim>\<open>parseFields\<close> looks at the name, bot or slot cells,
  so a row whose cells are empty there is parsed without error into a record with
  empty \<^verbatim>\<open>Name\<close>, \<^verbatim>\<open>BotName\<close> and \<^verbatim>\<open>Slot\<close>.
\<close>

theorem parseFields_nonempty_names_counterexample:
  "\<not> (\<forall>flds info. parseFields amd64 flds = Return (Some info, None) \<longrightarrow>
        Name info \<noteq> [] \<and> BotName info \<noteq> [] \<and> Slot info \<noteq> [])"
proof
  assume all: "\<forall>flds info. parseFields amd64 flds = Return (Some info, None) \<longrightarrow>
        Name info \<noteq> [] \<and> BotName info \<noteq> [] \<and> Slot info \<noteq> []"
  let ?flds = "[''net'', ''#chan'', [], [], ''5x'', ''1G'', []]"
  have "length ?flds = 7" and "?flds ! 4 \<noteq> []" by simp_all
  from parseFields_ok [OF this, of amd64]
  obtain info where "parseFields amd64 ?flds = Return (Some info, None)" and "Name info = []"
    by simp
  with all show False by blast
qed

text \<open>
  C4, amended: for every record that \<^verbatim>\<open>parseFields\<close> returns without error, \<^verbatim>\<open>Name\<close>,
  \<^verbatim>\<open>BotName\<close> and \<^verbatim>\<open>Slot\<close> are the cells of index 6, 2 and 3, unchanged; they are
  non-empty exactly when those cells are.
\<close>

theorem parseFields_copies_cells:
  assumes "parseFields pl flds = Return (Some info, None)"
  shows "Name info = flds ! 6 \<and> BotName info = flds ! 2 \<and> Slot info = flds ! 3"
proof -
  from parseFields_success [OF assms] have "length flds = 7" and "flds ! 4 \<noteq> []" .
  from parseFields_ok [OF this, of pl] assms show ?thesis by auto
qed

theorem parseFields_copies_cells_witness:
  "parseFields amd64 [''net'', ''#chan'', ''bot'', ''#5'', ''12x'', ''2.5G'', ''file.iso''] =
     Return (Some \<lparr>Network = ''net'', Channel = ''#chan'', BotName = ''bot'', Name = ''file.iso'',
                   Gets = 12, Url = [], Command = [], Size = 2684354560, Slot = ''#5''\<rparr>, None) \<and>
   Name \<lparr>Network = ''net'', Channel = ''#chan'', BotName = ''bot'', Name = ''file.iso'',
         Gets = 12, Url = [], Command = [], Size = 2684354560, Slot = ''#5''\<rparr> = ''file.iso'' \<and>
   BotName \<lparr>Network = ''net'', Channel = ''#chan'', BotName = ''bot'', Name = ''file.iso'',
         Gets = 12, Url = [], Command = [], Size = 2684354560, Slot = ''#5''\<rparr> = ''bot'' \<and>
   Slot \<lparr>Network = ''net'', Channel = ''#chan'', BotName = ''bot'', Name = ''file.iso'',
         Gets = 12, Url = [], Command = [], Size = 2684354560, Slot = ''#5''\<rparr> = ''#5''"
proof -
  have h: "parseFields amd64 [''net'', ''#chan'', ''bot'', ''#5'', ''12x'', ''2.5G'', ''file.iso''] =
     Return (Some \<lparr>Network = ''net'', Channel = ''#chan'', BotName = ''bot'', Name = ''file.iso'',
                   Gets = 12, Url = [], Command = [], Size = 2684354560, Slot = ''#5''\<rparr>, None)"
    by code_simp
  from parseFields_copies_cells [OF h] h show ?thesis
    by simp
qed

text \<open>
  The \<^verbatim>\<open>Gets\<close> cell, when it is not empty: the last byte is dropped and the rest
  converted; a failed conversion leaves \<^verbatim>\<open>Gets\<close> at 0 and the row is still parsed.
\<close>

lemma parseFields_Gets:
  assumes "length flds = 7" and "flds ! 4 \<noteq> []"
  shows "\<exists>info. parseFields pl flds = Return (Some info, None) \<and>
           Gets info = (case Atoi pl (butlast (flds ! 4)) of (n, None) \<Rightarrow> n | (n, Some e) \<Rightarrow> 0)"
  using parseFields_ok [OF assms, of pl] by simp

section \<open>Rows of the result table\<close>


lemma handleRow_empty_gets:
  "length r = 7 \<Longrightarrow> cellText (r ! 4) = [] \<Longrightarrow> handleRow pl r fileInfos = Panic SliceBoundsOutOfRange"
  by (simp add: handleRow_def rowFields_def parseFields_empty_gets)



text \<open>
  C6 holds only for a \<^verbatim>\<open>Gets\<close> cell that is not empty. For an empty one (an empty
  table cell) the slice panics before \<^verbatim>\<open>Atoi\<close> is called: the row is not parsed, and
  the panic ends the whole search, here after a header row and one row with an
  empty fifth cell.
\<close>

theorem Search_panics_on_empty_gets_cell:
  "XdccEuSearch pl
     (\<lambda>_. Response 200 (Document
        [map (\<lambda>t. \<lparr>cellText = t, anchorHref = None\<rparr>)
           [''Network'', ''Channel'', ''Bot'', ''Pack'', ''Gets'', ''Size'', ''Filename''],
         map (\<lambda>t. \<lparr>cellText = t, anchorHref = None\<rparr>)
           [''net'', ''#chan'', ''bot'', ''#5'', [], ''2.5G'', ''file.iso'']]))
     keywords
   = Panic SliceBoundsOutOfRange"
  by (simp add: XdccEuSearch_def handleRow_empty_gets)






section \<open>Failures of the provider\<close>

text \<open>
  C5 asks that a failing \<^verbatim>\<open>Search\<close> returns an error and never ends the process. The
  code calls \<^verbatim>\<open>log.Fatal\<close> on each of the three failures, so the process exits with
  status 1 and nothing is returned: for a failed request, for a status other than
  200 (here 404) and for a body that cannot be read as a document.
\<close>

theorem Search_exits_on_failure:
  "XdccEuSearch pl (\<lambda>_. GetError err) keywords = Exit 1 \<and>
   XdccEuSearch pl (\<lambda>_. Response 404 b) keywords = Exit 1 \<and>
   XdccEuSearch pl (\<lambda>_. Response 200 (Malformed err)) keywords = Exit 1"
  by (simp add: XdccEuSearch_def)

section \<open>The wait group of the registry\<close>

lemma pending_update:
  "i < length gs \<Longrightarrow> pending (gs[i := g]) = pending gs - owes (gs ! i) + owes g"
proof (induction gs arbitrary: i)
  case Nil
  then show ?case by simp
next
  case (Cons a gs)
  show ?case
  proof (cases i)
    case 0
    then show ?thesis by (simp add: pending_def)
  next
    case (Suc j)
    with Cons.prems have "j < length gs" by simp
    from Cons.IH [OF this] Suc show ?thesis by (simp add: pending_def)
  qed
qed

lemma owes_nonneg: "0 \<le> owes g"
  by (cases g) simp_all

lemma pending_ge:
  "k < length gs \<Longrightarrow> owes (gs ! k) \<le> pending gs"
proof (induction gs arbitrary: k)
  case Nil
  then show ?case by simp
next
  case (Cons a gs)
  have nn: "0 \<le> pending gs"
    unfolding pending_def by (rule sum_list_nonneg) (auto simp: owes_nonneg)
  show ?case
  proof (cases k)
    case 0
    with nn show ?thesis by (simp add: pending_def)
  next
    case (Suc j)
    with Cons.prems have "j < length gs" by simp
    from Cons.IH [OF this] Suc owes_nonneg [of a] show ?thesis by (simp add: pending_def)
  qed
qed

lemma pending_init:
  "pending (map (\<lambda>_. Spawned) ps) = int (length ps)"
  by (induction ps) (simp_all add: pending_def)

lemma stuck_init:
  "k < length ps \<Longrightarrow> stuck k (init_state ps)"
  by (simp add: stuck_def init_state_def pending_init)

lemma stuck_step:
  assumes "(ps ! k) kw = Return (res, Some e)" and "stuck k st"
  shows "stuck k (step ps kw i st)"
proof (cases "dead st \<or> length (goroutines st) \<le> i")
  case True
  then show ?thesis using assms(2) by (auto simp: step_def)
next
  case False
  then have i: "i < length (goroutines st)" and alive: "\<not> dead st" by auto
  from assms(2) have k: "k < length (goroutines st)" by (simp add: stuck_def)
  show ?thesis
  proof (cases "i = k")
    case True
    with assms i alive show ?thesis
      by (auto simp: step_def stuck_def pending_update split: goroutine.splits)
  next
    case False
    with assms i k alive show ?thesis
      by (auto simp: step_def stuck_def pending_update split: goroutine.splits outcome.splits)
  qed
qed

lemma stuck_wg:
  "stuck k st \<Longrightarrow> 1 \<le> wg st"
  using pending_ge [of k "goroutines st"]
  by (auto simp: stuck_def split: goroutine.splits)

lemma stuck_run:
  assumes "k < length ps" and "(ps ! k) kw = Return (res, Some e)"
  shows "stuck k (foldl (\<lambda>st i. step ps kw i st) (init_state ps) sched)"
proof (induction sched rule: rev_induct)
  case Nil
  then show ?case using assms(1) by (simp add: stuck_init)
next
  case (snoc i sched)
  then show ?case using stuck_step [OF assms(2)] by simp
qed

lemma registrySearch_blocked:
  assumes "k < length providerList"
    and "(providerList ! k) keywords = Return (res, Some e)"
  shows "registrySearch providerList keywords sched = None"
  using stuck_wg [OF stuck_run [OF assms, of sched]]
  by (simp add: registrySearch_def run_def Let_def)

text \<open>
  C1 asks that a registry with two providers, one failing and one returning K
  records, returns exactly those K records and never hangs. In the code the goroutine
  of a failing provider returns before \<^verbatim>\<open>wg.Done()\<close>, so the counter never reaches zero:
  whatever the order of the two providers and whatever the schedule, \<^verbatim>\<open>wg.Wait()\<close> has
  not returned. After both goroutines have run to their end the K records have been
  appended, the counter is 1 and nothing can lower it.
\<close>

theorem registrySearch_never_returns:
  "registrySearch [\<lambda>_. Return (rs, None), \<lambda>_. Return (res, Some e)] keywords sched = None \<and>
   registrySearch [\<lambda>_. Return (res, Some e), \<lambda>_. Return (rs, None)] keywords sched = None \<and>
   allResults (run [\<lambda>_. Return (rs, None), \<lambda>_. Return (res, Some e)] keywords [0, 0, 0, 1, 1]) = rs \<and>
   wg (run [\<lambda>_. Return (rs, None), \<lambda>_. Return (res, Some e)] keywords [0, 0, 0, 1, 1]) = 1 \<and>
   goroutines (run [\<lambda>_. Return (rs, None), \<lambda>_. Return (res, Some e)] keywords [0, 0, 0, 1, 1])
     = [Finished, Finished]"
proof -
  have a: "registrySearch [\<lambda>_. Return (rs, None), \<lambda>_. Return (res, Some e)] keywords sched = None"
    by (rule registrySearch_blocked [of 1]) simp_all
  have b: "registrySearch [\<lambda>_. Return (res, Some e), \<lambda>_. Return (rs, None)] keywords sched = None"
    by (rule registrySearch_blocked [of 0]) simp_all
  have c: "run [\<lambda>_. Return (rs, None), \<lambda>_. Return (res, Some e)] keywords [0, 0, 0, 1, 1] =
      \<lparr>wg = 1, allResults = rs, goroutines = [Finished, Finished], dead = False\<rparr>"
    by (simp add: run_def init_state_def step_def)
  from a b c show ?thesis by simp
qed

section \<open>Rounding to a binary format\<close>

lemma pow2_powi: "pow2 e = power_int 2 e"
  by (simp add: pow2_def power_int_def inverse_eq_divide power_one_over)

lemma pow2_pos: "0 < pow2 e"
  by (simp add: pow2_powi)

lemma pow2_add: "pow2 (a + b) = pow2 a * pow2 b"
  by (simp add: pow2_powi power_int_add)

lemma pow2_le: "a \<le> b \<Longrightarrow> pow2 a \<le> pow2 b"
  by (simp add: pow2_powi power_int_increasing)

lemma pow2_less: "a < b \<Longrightarrow> pow2 a < pow2 b"
  by (simp add: pow2_powi power_int_strict_increasing)

lemma pow2_less_imp: "pow2 a < pow2 b \<Longrightarrow> a < b"
  using pow2_le [of b a] by (cases "a < b") auto

lemma pow2_nat: "0 \<le> e \<Longrightarrow> pow2 e = of_int (2 ^ nat e)"
  by (simp add: pow2_def)

lemma ilog2_bounds:
  assumes "0 < q"
  shows "pow2 (ilog2 q) \<le> q \<and> q < pow2 (ilog2 q + 1)"
  proof (cases "1 \<le> q")
    case True
    define n where "n = \<lfloor>q\<rfloor>"
    have n1: "1 \<le> n" using True by (simp add: n_def le_floor_iff)
    then have n0: "0 < n" by simp
    from bitlen_bounds [OF n0]
    have lo: "2 ^ nat (bitlen n - 1) \<le> n" and hi: "n < 2 ^ nat (bitlen n)" by auto
    have b1: "1 \<le> bitlen n" using n0 by (simp add: bitlen_alt_def)
    have e: "ilog2 q = bitlen n - 1" using True by (simp add: ilog2_def n_def)
    have "pow2 (bitlen n - 1) = of_int (2 ^ nat (bitlen n - 1))"
      using b1 by (simp add: pow2_nat)
    also have "\<dots> \<le> of_int n" using lo by (simp only: of_int_le_iff)
    also have "\<dots> \<le> q" by (simp add: n_def)
    finally have A: "pow2 (ilog2 q) \<le> q" by (simp add: e)
    have "q < of_int (n + 1)" using floor_correct [of q] by (simp add: n_def)
    also have "\<dots> \<le> of_int (2 ^ nat (bitlen n))"
    proof -
      from hi have "n + 1 \<le> 2 ^ nat (bitlen n)" by simp
      then show ?thesis by (simp only: of_int_le_iff)
    qed
    also have "\<dots> = pow2 (bitlen n)" using b1 by (simp add: pow2_nat)
    finally have B: "q < pow2 (ilog2 q + 1)" by (simp add: e)
    from A B show ?thesis ..
  next
    case False
    then have q1: "q < 1" by simp
    define r where "r = 1 / q"
    define c where "c = \<lceil>r\<rceil>"
    have r1: "1 < r" using assms q1 by (simp add: r_def)
    have rpos: "0 < r" using r1 by simp
    have c2: "2 \<le> c" using r1 by (simp add: c_def)
    then have c0: "0 < c - 1" by simp
    from bitlen_bounds [OF c0]
    have lo: "2 ^ nat (bitlen (c - 1) - 1) \<le> c - 1" and hi: "c - 1 < 2 ^ nat (bitlen (c - 1))"
      by auto
    define b where "b = bitlen (c - 1)"
    have b1: "1 \<le> b" using c0 by (simp add: b_def bitlen_alt_def)
    have e: "ilog2 q = - b" using False by (simp add: ilog2_def b_def c_def r_def)
    have "r \<le> of_int c" by (simp add: c_def)
    also have "\<dots> \<le> of_int (2 ^ nat b)"
    proof -
      from hi have "c \<le> 2 ^ nat b" by (simp add: b_def)
      then show ?thesis by (simp only: of_int_le_iff)
    qed
    also have "\<dots> = pow2 b" using b1 by (simp add: pow2_nat)
    finally have rb: "r \<le> pow2 b" .
    have "pow2 (- b) * pow2 b = 1" using pow2_add [of "- b" b] by (simp add: pow2_def)
    then have inv: "pow2 (- b) = 1 / pow2 b" using pow2_pos [of b] by (simp add: field_simps)
    have "1 / pow2 b \<le> 1 / r" using rb rpos by (simp add: frac_le)
    then have A: "pow2 (ilog2 q) \<le> q" using assms by (simp add: e inv r_def)
    have "pow2 (b - 1) = of_int (2 ^ nat (b - 1))" using b1 by (simp add: pow2_nat)
    also have "\<dots> \<le> of_int (c - 1)" using lo by (simp only: of_int_le_iff b_def)
    also have "\<dots> < r" unfolding c_def by (simp add: ceiling_correct less_ceiling_iff)
    finally have low: "pow2 (b - 1) < r" .
    have "pow2 (1 - b) * pow2 (b - 1) = 1" using pow2_add [of "1 - b" "b - 1"] by (simp add: pow2_def)
    then have inv2: "pow2 (1 - b) = 1 / pow2 (b - 1)" using pow2_pos [of "b - 1"] by (simp add: field_simps)
    have "1 / r < 1 / pow2 (b - 1)" using low pow2_pos [of "b - 1"] by (simp add: frac_less2)
    then have B: "q < pow2 (ilog2 q + 1)" using assms by (simp add: e inv2 r_def)
    from A B show ?thesis ..
  qed


lemma ilog2_less:
  assumes "0 < q" and "q < pow2 k"
  shows "ilog2 q < k"
proof -
  from ilog2_bounds [OF assms(1)] assms(2) have "pow2 (ilog2 q) < pow2 k" by simp
  then show ?thesis by (rule pow2_less_imp)
qed

lemma round_half_even_of_int: "round_half_even (of_int n) = n"
  by (simp add: round_half_even_def)

lemma round_half_even_nonneg: "0 \<le> r \<Longrightarrow> 0 \<le> round_half_even r"
  by (auto simp: round_half_even_def Let_def)

lemma round_half_even_le:
  assumes "r < of_int m"
  shows "round_half_even r \<le> m"
proof -
  from assms have "\<lfloor>r\<rfloor> < m" by (simp add: floor_less_iff)
  then show ?thesis by (auto simp: round_half_even_def Let_def)
qed

lemma fround_exact:
  assumes x: "x = of_int n * pow2 e"
    and n: "\<bar>n\<bar> < 2 ^ prec fmt"
    and e: "emin fmt - int (prec fmt) + 1 \<le> e"
  shows "fround fmt x = x"
proof (cases "n = 0")
  case True
  then show ?thesis by (simp add: x fround_def)
next
  case False
  have ax: "\<bar>x\<bar> = of_int \<bar>n\<bar> * pow2 e"
    using pow2_pos [of e] by (simp add: x abs_mult)
  have xpos: "0 < \<bar>x\<bar>" using False pow2_pos [of e] by (simp add: x)
  have "of_int \<bar>n\<bar> < (of_int (2 ^ prec fmt) :: rat)" using n by (simp only: of_int_less_iff)
  also have "\<dots> = pow2 (int (prec fmt))" by (simp add: pow2_nat)
  finally have "\<bar>x\<bar> < pow2 (int (prec fmt)) * pow2 e"
    using pow2_pos [of e] by (simp add: ax)
  then have "\<bar>x\<bar> < pow2 (int (prec fmt) + e)" by (simp add: pow2_add)
  from ilog2_less [OF xpos this] have L: "ilog2 \<bar>x\<bar> < int (prec fmt) + e" .
  define E where "E = max (ilog2 \<bar>x\<bar>) (emin fmt) - int (prec fmt) + 1"
  have Ee: "E \<le> e" using L e by (simp add: E_def)
  define d where "d = nat (e - E)"
  have "pow2 e = pow2 (E + int d)" using Ee by (simp add: d_def)
  also have "\<dots> = pow2 E * of_int (2 ^ d)" by (simp add: pow2_add pow2_nat)
  finally have pe: "pow2 e = pow2 E * of_int (2 ^ d)" .
  have u: "ulp fmt x = pow2 E" by (simp add: ulp_def E_def)
  have "\<bar>x\<bar> / pow2 E = of_int (\<bar>n\<bar> * 2 ^ d)"
    using pow2_pos [of E] by (simp add: ax pe)
  then have "round_half_even (\<bar>x\<bar> / ulp fmt x) = \<bar>n\<bar> * 2 ^ d"
    by (simp only: u round_half_even_of_int)
  then have "fround fmt x = sgn x * of_int (\<bar>n\<bar> * 2 ^ d) * pow2 E"
    using xpos by (simp add: fround_def u)
  also have "\<dots> = sgn x * \<bar>x\<bar>" by (simp add: ax pe)
  also have "\<dots> = x" by (simp add: sgn_mult_abs)
  finally show ?thesis .
qed

lemma fround_dyadic:
  "\<exists>n e. fround fmt q = of_int n * pow2 e \<and> \<bar>n\<bar> \<le> 2 ^ prec fmt \<and>
         emin fmt - int (prec fmt) + 1 \<le> e"
proof (cases "q = 0")
  case True
  have "fround fmt q = of_int 0 * pow2 (emin fmt - int (prec fmt) + 1)"
    using True by (simp add: fround_def)
  then show ?thesis by (intro exI [of _ 0] exI [of _ "emin fmt - int (prec fmt) + 1"]) simp
next
  case False
  then have qpos: "0 < \<bar>q\<bar>" by simp
  define L where "L = ilog2 \<bar>q\<bar>"
  define E where "E = max L (emin fmt) - int (prec fmt) + 1"
  define N where "N = round_half_even (\<bar>q\<bar> / pow2 E)"
  have u: "ulp fmt q = pow2 E" by (simp add: ulp_def E_def L_def)
  have EL: "L + 1 \<le> E + int (prec fmt)" by (simp add: E_def)
  from ilog2_bounds [OF qpos] have "\<bar>q\<bar> < pow2 (L + 1)" by (simp add: L_def)
  also have "\<dots> \<le> pow2 (E + int (prec fmt))" using EL by (rule pow2_le)
  also have "\<dots> = pow2 E * of_int (2 ^ prec fmt)" by (simp add: pow2_add pow2_nat)
  finally have "\<bar>q\<bar> / pow2 E < of_int (2 ^ prec fmt)"
    using pow2_pos [of E] by (simp add: field_simps)
  then have Nle: "N \<le> 2 ^ prec fmt" unfolding N_def by (rule round_half_even_le)
  have "0 \<le> \<bar>q\<bar> / pow2 E" using pow2_pos [of E] by simp
  then have N0: "0 \<le> N" unfolding N_def by (rule round_half_even_nonneg)
  define s :: int where "s = (if 0 < q then 1 else - 1)"
  have sg: "sgn q = of_int s" using False by (simp add: s_def sgn_if)
  have "fround fmt q = of_int (s * N) * pow2 E"
    using False by (simp add: fround_def u N_def sg)
  moreover have "\<bar>s * N\<bar> \<le> 2 ^ prec fmt" using Nle N0 by (simp add: s_def abs_mult)
  moreover have "emin fmt - int (prec fmt) + 1 \<le> E" by (simp add: E_def)
  ultimately show ?thesis by blast
qed

section \<open>The size of a record\<close>

text \<open>
  A float32 value times one of the three multipliers is a float64 value: the
  multiplication in \<^verbatim>\<open>parseFileSize\<close> never rounds.
\<close>

lemma float32_times_pow2_exact:
  assumes x: "x = fround float32 q"
    and fin: "\<not> overflows float32 x"
    and j: "j \<le> 30"
  shows "fmul64 (Fin x) (Fin (2 ^ j)) = Fin (x * 2 ^ j)"
proof -
  from fround_dyadic [of float32 q] x
  obtain n e where ne: "x = of_int n * pow2 e" and n: "\<bar>n\<bar> \<le> 2 ^ 24" and e: "- 149 \<le> e"
    by (auto simp: float32_def)
  have "(2 :: rat) ^ j = pow2 (int j)" by (simp add: pow2_nat)
  then have prod: "x * 2 ^ j = of_int n * pow2 (e + int j)"
    by (simp add: ne pow2_add)
  have "\<bar>n\<bar> < 2 ^ 53" using n by simp
  then have n64: "\<bar>n\<bar> < 2 ^ prec float64" by (simp add: float64_def)
  have e64: "emin float64 - int (prec float64) + 1 \<le> e + int j"
    using e by (simp add: float64_def)
  from fround_exact [OF prod n64 e64] have exact: "fround float64 (x * 2 ^ j) = x * 2 ^ j" .
  have "\<bar>x\<bar> < pow2 128" using fin by (simp add: overflows_def float32_def)
  moreover have "(2 :: rat) ^ j \<le> 2 ^ 30" using j by (intro power_increasing) simp_all
  ultimately have "\<bar>x\<bar> * 2 ^ j < pow2 128 * 2 ^ 30"
    by (intro mult_less_le_imp_less) simp_all
  also have "\<dots> = pow2 158" by (simp add: pow2_def)
  also have "\<dots> \<le> pow2 1024" by (rule pow2_le) simp
  finally have "\<not> overflows float64 (x * 2 ^ j)"
    by (simp add: overflows_def float64_def abs_mult)
  with exact show ?thesis by (simp add: to_format_def)
qed

lemma unit_multiplier_pow2:
  "unit_multiplier u = Some m \<Longrightarrow> \<exists>j\<le>30. m = 2 ^ j"
proof -
  assume "unit_multiplier u = Some m"
  then consider "m = GigaByte" | "m = MegaByte" | "m = KiloByte"
    by (auto simp: unit_multiplier_def split: if_splits)
  then show ?thesis
  proof cases
    case 1
    then have "m = 2 ^ 30" by (simp add: GigaByte_def)
    then show ?thesis by (intro exI [of _ 30]) simp
  next
    case 2
    then have "m = 2 ^ 20" by (simp add: MegaByte_def)
    then show ?thesis by (intro exI [of _ 20]) simp
  next
    case 3
    then have "m = 2 ^ 10" by (simp add: KiloByte_def)
    then show ?thesis by (intro exI [of _ 10]) simp
  qed
qed

lemma ParseFloat_Fin:
  assumes "ParseFloat s 32 = (Fin x, None)"
  shows "\<exists>q. special s = None \<and> readFloat s = Some q \<and> x = fround float32 q \<and>
             \<not> overflows float32 x"
proof (cases "special s")
  case (Some v)
  then have "v = PInf \<or> v = NInf \<or> v = NaN"
    by (auto simp: special_def Let_def split: prod.splits if_splits)
  with Some assms show ?thesis by (auto simp: ParseFloat_def)
next
  case None
  with assms show ?thesis
    by (auto simp: ParseFloat_def to_format_def format_of_bitSize_def Let_def
        split: option.splits if_splits fval.splits)
qed

lemma ParseFloat_number:
  assumes "special s = None" and "readFloat s = Some q"
    and "\<not> overflows float32 (fround float32 q)"
  shows "ParseFloat s 32 = (Fin (fround float32 q), None)"
  using assms by (simp add: ParseFloat_def to_format_def format_of_bitSize_def)

lemma parseFileSize_units:
  assumes "ParseFloat prefix 32 = (Fin x, None)" and "unit_multiplier u = Some m"
  shows "parseFileSize pl (prefix @ [u]) = (int64_of_float64 pl (fmul64 (Fin x) (Fin m)), None)"
  using assms by (auto simp: parseFileSize_def unit_multiplier_def split: if_splits)

lemma trunc_bound:
  assumes "\<bar>y\<bar> < 2 ^ 63"
  shows "- (2 ^ 63) \<le> trunc y \<and> trunc y < 2 ^ 63"
proof (cases "0 \<le> y")
  case True
  from assms have "y < of_int (2 ^ 63)" by (simp add: abs_less_iff)
  then have "\<lfloor>y\<rfloor> < 2 ^ 63" by (simp only: floor_less_iff)
  moreover have "0 \<le> \<lfloor>y\<rfloor>" using True by simp
  ultimately show ?thesis using True by (simp add: trunc_def)
next
  case False
  from assms have "of_int (- (2 ^ 63)) < y" by (simp add: abs_less_iff)
  then have "- (2 ^ 63) < \<lceil>y\<rceil>" by (simp only: less_ceiling_iff)
  moreover have "\<lceil>y\<rceil> \<le> 0" using False by simp
  ultimately show ?thesis using False by (simp add: trunc_def)
qed

lemma parseFileSize_value:
  assumes pf: "ParseFloat prefix 32 = (Fin x, None)"
    and um: "unit_multiplier u = Some m"
    and small: "\<bar>x\<bar> < 2 ^ 33"
  shows "parseFileSize pl (prefix @ [u]) = (trunc (x * m), None)"
proof -
  from ParseFloat_Fin [OF pf] obtain q where x: "x = fround float32 q"
    and fin: "\<not> overflows float32 x" by blast
  from unit_multiplier_pow2 [OF um] obtain j where j: "j \<le> 30" and m: "m = 2 ^ j" by blast
  from float32_times_pow2_exact [OF x fin j]
  have mul: "fmul64 (Fin x) (Fin m) = Fin (x * m)" by (simp add: m)
  have "(2 :: rat) ^ j \<le> 2 ^ 30" using j by (intro power_increasing) simp_all
  with small have "\<bar>x\<bar> * 2 ^ j < 2 ^ 33 * 2 ^ 30"
    by (intro mult_less_le_imp_less) simp_all
  then have "\<bar>x * m\<bar> < 2 ^ 63" by (simp add: m abs_mult)
  from trunc_bound [OF this] have "int64_of_float64 pl (Fin (x * m)) = trunc (x * m)"
    by (simp add: int64_of_float64_def)
  with parseFileSize_units [OF pf um, of pl] mul show ?thesis by simp
qed






text \<open>
  C10, as stated, fails in its last part: a prefix that float32 does not hold exactly
  need not change the byte count. For \<^verbatim>\<open>"0.1K"\<close> the prefix is rounded to
  13421773 / 134217728, and the count is 102, as with the exact 0.1.
\<close>

theorem parseFileSize_float32_counterexample:
  "\<not> (\<forall>prefix q u m. readFloat prefix = Some q \<and> \<not> representable float32 q \<and>
         unit_multiplier u = Some m \<longrightarrow>
         fst (parseFileSize amd64 (prefix @ [u])) \<noteq> trunc (q * m))"
proof
  assume all: "\<forall>prefix q u m. readFloat prefix = Some q \<and> \<not> representable float32 q \<and>
         unit_multiplier u = Some m \<longrightarrow>
         fst (parseFileSize amd64 (prefix @ [u])) \<noteq> trunc (q * m)"
  have r: "readFloat ''0.1'' = Some (1 / 10)"
    by code_simp
  have n: "\<not> representable float32 (1 / 10)"
    by code_simp
  have u: "unit_multiplier CHR ''K'' = Some KiloByte"
    by (simp add: unit_multiplier_def)
  have v: "fst (parseFileSize amd64 (''0.1'' @ [CHR ''K''])) = 102"
    by code_simp
  have t: "trunc (1 / 10 * KiloByte) = 102"
    by code_simp
  from all r n u have "fst (parseFileSize amd64 (''0.1'' @ [CHR ''K''])) \<noteq> trunc (1 / 10 * KiloByte)"
    by blast
  with v t show False by simp
qed

text \<open>
  C10, amended: \<^verbatim>\<open>parseFileSize\<close> parses the prefix at 32-bit precision. When the prefix
  is a number of exact value \<open>q\<close> whose nearest float32 is finite and below 2^33 in
  magnitude, and the last byte is a unit of multiplier \<open>m\<close>, \<^verbatim>\<open>ParseFloat\<close> returns that
  nearest float32, the float64 product with \<open>m\<close> is exact, and the byte count is the
  product truncated towards zero. This can differ from the truncation of \<open>q * m\<close>:
  \<^verbatim>\<open>"16777217K"\<close> gives 16777216 * 1024, not 16777217 * 1024.
\<close>

theorem parseFileSize_rounds_prefix:
  assumes "special prefix = None"
    and "readFloat prefix = Some q"
    and "\<not> overflows float32 (fround float32 q)"
    and "\<bar>fround float32 q\<bar> < 2 ^ 33"
    and "unit_multiplier u = Some m"
  shows "ParseFloat prefix 32 = (Fin (fround float32 q), None) \<and>
         fmul64 (Fin (fround float32 q)) (Fin m) = Fin (fround float32 q * m) \<and>
         parseFileSize pl (prefix @ [u]) = (trunc (fround float32 q * m), None)"
proof -
  from ParseFloat_number [OF assms(1-3)]
  have pf: "ParseFloat prefix 32 = (Fin (fround float32 q), None)" .
  from unit_multiplier_pow2 [OF assms(5)] obtain j where j: "j \<le> 30" and m: "m = 2 ^ j" by blast
  from float32_times_pow2_exact [OF refl assms(3) j]
  have mul: "fmul64 (Fin (fround float32 q)) (Fin m) = Fin (fround float32 q * m)"
    by (simp add: m)
  from parseFileSize_value [OF pf assms(5) assms(4), of pl] pf mul show ?thesis by simp
qed

theorem parseFileSize_rounds_prefix_witness:
  "special ''16777217'' = None \<and>
   readFloat ''16777217'' = Some 16777217 \<and>
   fround float32 16777217 = 16777216 \<and>
   unit_multiplier CHR ''K'' = Some KiloByte \<and>
   parseFileSize amd64 (''16777217'' @ [CHR ''K'']) = (17179869184, None) \<and>
   trunc (16777217 * KiloByte) = 17179870208"
proof -
  have s: "special ''16777217'' = None" by code_simp
  have r: "readFloat ''16777217'' = Some 16777217" by code_simp
  have f: "fround float32 16777217 = 16777216" by code_simp
  have o: "\<not> overflows float32 (fround float32 16777217)" by code_simp
  have b: "\<bar>fround float32 16777217\<bar> < 2 ^ 33" by (simp add: f)
  have u: "unit_multiplier CHR ''K'' = Some KiloByte" by (simp add: unit_multiplier_def)
  have t: "trunc (16777216 * KiloByte) = 17179869184" by code_simp
  have t': "trunc (16777217 * KiloByte) = 17179870208" by code_simp
  from parseFileSize_rounds_prefix [OF s r o b u, of amd64] f t
  have "parseFileSize amd64 (''16777217'' @ [CHR ''K'']) = (17179869184, None)"
    by simp
  with s r f u t' show ?thesis by simp
qed

end
